theory Spec2Isabelle
  imports Main "HOL-Library.Multiset"
begin

section \<open>Documents and the document tree (src/store/documentStore.ts)\<close>

text \<open>
  A row of the \<open>documents\<close> table, as \<open>types/database.ts\<close> declares it. The column
  \<open>id\<close> is named \<open>doc_id\<close> here; \<open>sort_order\<close> is an INTEGER column, read as an
  unbounded integer. Timestamps are opaque strings.
\<close>

record Document =
  doc_id :: string
  project_id :: string
  parent_id :: "string option"
  title :: string
  content :: string
  is_folder :: bool
  is_published :: bool
  sort_order :: int
  created_by :: string
  created_at :: string
  updated_at :: string

text \<open>\<open>DocumentTreeNode extends Document { children: DocumentTreeNode[] }\<close>.\<close>

datatype DocumentTreeNode = Node (node_doc: Document) (children: "DocumentTreeNode list")

text \<open>
  \<open>buildDocumentTree\<close> keeps its nodes in a \<open>Map\<close> keyed by document id. The node objects
  are shared between the map, the \<open>roots\<close> array and the \<open>children\<close> arrays; every such
  reference is obtained by \<open>map.get\<close>, so a reference is modelled by the key, and a node by
  the document it copies together with the keys of its children.
\<close>

type_synonym NodeMap = "string \<rightharpoonup> Document \<times> string list"

text \<open>First pass: \<open>map.set(doc.id, { ...doc, children: [] })\<close>; a later document with the
  same id replaces the earlier node.\<close>

definition createNodes :: "Document list \<Rightarrow> NodeMap" where
  "createNodes documents = fold (\<lambda>doc m. m(doc_id doc \<mapsto> (doc, []))) documents Map.empty"

text \<open>Second pass, one document: a truthy \<open>parent_id\<close> (neither null nor the empty
  string) that is a key of the map receives the node as its last child; any other node is
  pushed onto \<open>roots\<close>.\<close>

definition attach :: "Document \<Rightarrow> NodeMap \<times> string list \<Rightarrow> NodeMap \<times> string list" where
  "attach doc st =
     (case st of (m, roots) \<Rightarrow>
        (case parent_id doc of
           None \<Rightarrow> (m, roots @ [doc_id doc])
         | Some p \<Rightarrow>
             (if p \<noteq> [] then
                (case m p of
                   Some (pd, cs) \<Rightarrow> (m(p \<mapsto> (pd, cs @ [doc_id doc])), roots)
                 | None \<Rightarrow> (m, roots @ [doc_id doc]))
              else (m, roots @ [doc_id doc]))))"

definition linkNodes :: "Document list \<Rightarrow> NodeMap \<Rightarrow> NodeMap \<times> string list" where
  "linkNodes documents m = fold attach documents (m, [])"

text \<open>The comparator \<open>a.sort_order - b.sort_order\<close> of \<open>nodes.sort\<close>, read through the map.
  \<open>Array.prototype.sort\<close> is stable, as \<open>sort_key\<close> is.\<close>

definition node_order :: "NodeMap \<Rightarrow> string \<Rightarrow> int" where
  "node_order m k = (case m k of Some (d, cs) \<Rightarrow> sort_order d | None \<Rightarrow> 0)"

text \<open>
  \<open>sortNodes\<close> sorts an array of nodes and recurses into the children of each. The
  recursion follows the object graph, which the source never checks for cycles; the first
  argument bounds the depth of the call stack, and \<open>None\<close> is the \<open>RangeError\<close> of
  a recursion that does not end. The result is the sorted array read as a forest.
\<close>

fun sortNodes :: "nat \<Rightarrow> NodeMap \<Rightarrow> string list \<Rightarrow> DocumentTreeNode list option" where
  "sortNodes 0 m nodes = None"
| "sortNodes (Suc n) m nodes =
     those (map (\<lambda>k. case m k of
                        None \<Rightarrow> None
                      | Some (d, cs) \<Rightarrow> map_option (Node d) (sortNodes n m cs))
                (sort_key (node_order m) nodes))"

text \<open>
  The whole function. A recursion of \<open>sortNodes\<close> that ends visits no node twice on one
  path, so it is never deeper than the number of documents; with one frame more than
  that, only a recursion without end is cut.
\<close>

definition buildDocumentTree :: "Document list \<Rightarrow> DocumentTreeNode list option" where
  "buildDocumentTree documents =
     (case linkNodes documents (createNodes documents) of
        (m, roots) \<Rightarrow> sortNodes (Suc (length documents)) m roots)"


section \<open>The document store\<close>

text \<open>The zustand state of \<open>useDocumentStore\<close>; \<open>error\<close> holds \<open>error.message\<close>.\<close>

record DocumentState =
  documents :: "Document list"
  documentTree :: "DocumentTreeNode list"
  currentDocument :: "Document option"
  loading :: bool
  saving :: bool
  error :: "string option"

text \<open>\<open>DocumentUpdate\<close>: every column is optional; \<open>parent_id\<close> may be given as null.\<close>

record DocumentUpdate =
  upd_id :: "string option"
  upd_project_id :: "string option"
  upd_parent_id :: "string option option"
  upd_title :: "string option"
  upd_content :: "string option"
  upd_is_folder :: "bool option"
  upd_is_published :: "bool option"
  upd_sort_order :: "int option"
  upd_created_by :: "string option"
  upd_created_at :: "string option"
  upd_updated_at :: "string option"

definition no_update :: DocumentUpdate where
  "no_update = \<lparr>upd_id = None, upd_project_id = None, upd_parent_id = None, upd_title = None,
     upd_content = None, upd_is_folder = None, upd_is_published = None, upd_sort_order = None,
     upd_created_by = None, upd_created_at = None, upd_updated_at = None\<rparr>"

definition or_keep :: "'a option \<Rightarrow> 'a \<Rightarrow> 'a" where
  "or_keep v old = (case v of None \<Rightarrow> old | Some x \<Rightarrow> x)"

text \<open>The object spread \<open>{ ...d, ...updates }\<close>.\<close>

definition spread :: "Document \<Rightarrow> DocumentUpdate \<Rightarrow> Document" where
  "spread d u =
     \<lparr>doc_id = or_keep (upd_id u) (doc_id d),
      project_id = or_keep (upd_project_id u) (project_id d),
      parent_id = or_keep (upd_parent_id u) (parent_id d),
      title = or_keep (upd_title u) (title d),
      content = or_keep (upd_content u) (content d),
      is_folder = or_keep (upd_is_folder u) (is_folder d),
      is_published = or_keep (upd_is_published u) (is_published d),
      sort_order = or_keep (upd_sort_order u) (sort_order d),
      created_by = or_keep (upd_created_by u) (created_by d),
      created_at = or_keep (upd_created_at u) (created_at d),
      updated_at = or_keep (upd_updated_at u) (updated_at d)\<rparr>"

text \<open>The message of the \<open>RangeError\<close> a recursion without end raises.\<close>

definition stack_overflow :: string where
  "stack_overflow = ''Maximum call stack size exceeded''"

text \<open>
  Every action awaits one request to the backend. Its answer is an argument of the model:
  \<open>None\<close> when the request succeeded, \<open>Some msg\<close> when it came back with an error.

  \<open>updateDocument\<close>: \<open>set({ saving: true, error: null })\<close>, the request, then the local
  update inside the \<open>try\<close>; whatever is thrown there ends in the \<open>catch\<close>.
\<close>

definition updateDocument ::
  "DocumentState \<Rightarrow> string \<Rightarrow> DocumentUpdate \<Rightarrow> string option \<Rightarrow> bool \<times> DocumentState" where
  "updateDocument s documentId updates resp =
     (let s1 = s\<lparr>saving := True, error := None\<rparr> in
      case resp of
        Some msg \<Rightarrow> (False, s1\<lparr>error := Some msg, saving := False\<rparr>)
      | None \<Rightarrow>
          (let newDocuments =
                 map (\<lambda>d. if doc_id d = documentId then spread d updates else d) (documents s1)
           in case buildDocumentTree newDocuments of
                None \<Rightarrow> (False, s1\<lparr>error := Some stack_overflow, saving := False\<rparr>)
              | Some tree \<Rightarrow>
                  (True, s1\<lparr>documents := newDocuments,
                            documentTree := tree,
                            currentDocument :=
                              (case currentDocument s1 of
                                 None \<Rightarrow> None
                               | Some c \<Rightarrow>
                                   if doc_id c = documentId then Some (spread c updates)
                                   else Some c),
                            saving := False\<rparr>)))"


text \<open>\<open>togglePublished\<close>: \<open>find\<close> the document, give up when there is none, else
  \<open>updateDocument(documentId, { is_published: !doc.is_published })\<close>.\<close>

definition togglePublished ::
  "DocumentState \<Rightarrow> string \<Rightarrow> string option \<Rightarrow> bool \<times> DocumentState" where
  "togglePublished s documentId resp =
     (case find (\<lambda>d. doc_id d = documentId) (documents s) of
        None \<Rightarrow> (False, s)
      | Some doc \<Rightarrow>
          updateDocument s documentId
            (no_update\<lparr>upd_is_published := Some (\<not> is_published doc)\<rparr>) resp)"



subsection \<open>Creating a document\<close>

text \<open>\<open>Omit<DocumentInsert, "created_by">\<close>: only \<open>project_id\<close> is required; an absent
  \<open>parent_id\<close> and a null one are both \<open>None\<close>.\<close>

record DocumentInsert =
  ins_id :: "string option"
  ins_project_id :: string
  ins_parent_id :: "string option"
  ins_title :: "string option"
  ins_content :: "string option"
  ins_is_folder :: "bool option"
  ins_is_published :: "bool option"
  ins_sort_order :: "int option"
  ins_created_at :: "string option"
  ins_updated_at :: "string option"

text \<open>\<open>docData.parent_id || null\<close>: the empty string is falsy.\<close>

definition parent_or_null :: "string option \<Rightarrow> string option" where
  "parent_or_null p = (case p of None \<Rightarrow> None | Some x \<Rightarrow> if x = [] then None else Some x)"

text \<open>
  The query for the sibling with the greatest position, on the rows of \<open>documents\<close>:
  \<open>.select("sort_order").eq("project_id", p).eq("parent_id", v).order("sort_order",
  { ascending: false }).limit(1)\<close>. The client sends \<open>.eq(column, value)\<close> as the filter
  \<open>column=eq.value\<close>, an equality of SQL; the test for null is \<open>.is(column, null)\<close>. With
  \<open>v\<close> null the filter is \<open>parent_id=eq.null\<close>, which no row satisfies (the text \<open>null\<close> is
  not even a uuid, so the request is answered with an error and \<open>data\<close> is null). The
  result is \<open>None\<close> for null data, else the positions selected.
\<close>

definition select_max_sibling :: "Document list \<Rightarrow> string \<Rightarrow> string option \<Rightarrow> int list option" where
  "select_max_sibling table project v =
     (case v of
        None \<Rightarrow> None
      | Some p \<Rightarrow>
          Some (take 1 (rev (sort (map sort_order
                  (filter (\<lambda>d. project_id d = project \<and> parent_id d = Some p) table))))))"

text \<open>\<open>siblings?.[0]?.sort_order ?? -1\<close>.\<close>

definition max_order :: "int list option \<Rightarrow> int" where
  "max_order siblings = (case siblings of None \<Rightarrow> -1 | Some [] \<Rightarrow> -1 | Some (x # xs) \<Rightarrow> x)"

text \<open>The row the insert returns: the columns given, \<open>created_by\<close> and \<open>sort_order\<close> as the
  action sets them, and the defaults of the table for the rest; \<open>new_id\<close> and \<open>now\<close> are the
  generated key and the time of the insert.\<close>

definition inserted_row ::
  "DocumentInsert \<Rightarrow> string \<Rightarrow> int \<Rightarrow> string \<Rightarrow> string \<Rightarrow> Document" where
  "inserted_row docData user order new_id now =
     \<lparr>doc_id = or_keep (ins_id docData) new_id,
      project_id = ins_project_id docData,
      parent_id = ins_parent_id docData,
      title = or_keep (ins_title docData) ''Untitled'',
      content = or_keep (ins_content docData) [],
      is_folder = or_keep (ins_is_folder docData) False,
      is_published = or_keep (ins_is_published docData) False,
      sort_order = order,
      created_by = user,
      created_at = or_keep (ins_created_at docData) now,
      updated_at = or_keep (ins_updated_at docData) now\<rparr>"

text \<open>
  \<open>createDocument\<close>, on the store and the \<open>documents\<close> table. \<open>user\<close> is the answer of
  \<open>auth.getUser()\<close>, \<open>insert_error\<close> that of the insert. It returns the new document or
  null, the store and the table.
\<close>

definition createDocument ::
  "DocumentState \<Rightarrow> Document list \<Rightarrow> string option \<Rightarrow> DocumentInsert \<Rightarrow> string \<Rightarrow> string
     \<Rightarrow> string option \<Rightarrow> Document option \<times> DocumentState \<times> Document list" where
  "createDocument s table user docData new_id now insert_error =
     (let s1 = s\<lparr>loading := True, error := None\<rparr> in
      case user of
        None \<Rightarrow> (None, s1\<lparr>error := Some ''Not authenticated'', loading := False\<rparr>, table)
      | Some u \<Rightarrow>
          (let siblings = select_max_sibling table (ins_project_id docData)
                            (parent_or_null (ins_parent_id docData));
               maxOrder = max_order siblings
           in case insert_error of
                Some msg \<Rightarrow> (None, s1\<lparr>error := Some msg, loading := False\<rparr>, table)
              | None \<Rightarrow>
                  (let document = inserted_row docData u (maxOrder + 1) new_id now;
                       newDocuments = documents s1 @ [document]
                   in case buildDocumentTree newDocuments of
                        None \<Rightarrow>
                          (None, s1\<lparr>error := Some stack_overflow, loading := False\<rparr>,
                           table @ [document])
                      | Some tree \<Rightarrow>
                          (Some document,
                           s1\<lparr>documents := newDocuments, documentTree := tree, loading := False\<rparr>,
                           table @ [document]))))"

text \<open>The positions of the siblings of a new document: the rows of the project with the
  same parent, null included.\<close>

definition sibling_orders :: "Document list \<Rightarrow> string \<Rightarrow> string option \<Rightarrow> int list" where
  "sibling_orders table project parent =
     map sort_order (filter (\<lambda>d. project_id d = project \<and> parent_id d = parent) table)"

text \<open>The position the specification gives a new document.\<close>

definition spec_order :: "int list \<Rightarrow> int" where
  "spec_order orders = (if orders = [] then 0 else Max (set orders) + 1)"

text \<open>A new untitled document of project \<open>p1\<close> under the given parent.\<close>

definition ex_insert :: "string option \<Rightarrow> DocumentInsert" where
  "ex_insert p =
     \<lparr>ins_id = None, ins_project_id = ''p1'', ins_parent_id = p, ins_title = None,
      ins_content = None, ins_is_folder = None, ins_is_published = None,
      ins_sort_order = None, ins_created_at = None, ins_updated_at = None\<rparr>"

section \<open>Parent links and cycles\<close>








section \<open>What a forest holds\<close>








section \<open>Project members and their row level security (schema.sql)\<close>

datatype MemberRole = Owner | Editor | Viewer

text \<open>A row of \<open>project_members\<close>: \<open>UNIQUE(project_id, user_id)\<close>, primary key \<open>id\<close>.\<close>

record ProjectMember =
  member_id :: string
  member_project :: string
  user_id :: string
  role :: MemberRole
  invited_by :: "string option"

text \<open>
  \<open>has_project_access(p_project_id, p_user_id, p_min_role)\<close>: the role of the user in the
  project is selected; no row gives FALSE; otherwise the hierarchy owner, editor, viewer
  decides.
\<close>

definition has_project_access ::
  "ProjectMember list \<Rightarrow> string \<Rightarrow> string \<Rightarrow> MemberRole \<Rightarrow> bool" where
  "has_project_access members p u min_role =
     (case find (\<lambda>m. member_project m = p \<and> user_id m = u) members of
        None \<Rightarrow> False
      | Some m \<Rightarrow>
          (case min_role of
             Viewer \<Rightarrow> True
           | Editor \<Rightarrow> role m = Owner \<or> role m = Editor
           | Owner \<Rightarrow> role m = Owner))"

text \<open>The policies on \<open>project_members\<close>; \<open>uid\<close> is \<open>auth.uid()\<close>.

  "Owners can add members", \<open>FOR INSERT WITH CHECK\<close>:\<close>

definition insert_policy :: "ProjectMember list \<Rightarrow> string \<Rightarrow> ProjectMember \<Rightarrow> bool" where
  "insert_policy members uid row = has_project_access members (member_project row) uid Owner"

text \<open>"Owners can update member roles", \<open>FOR UPDATE USING\<close>. The policy has no
  \<open>WITH CHECK\<close>, so the same expression is checked on the updated row.\<close>

definition update_policy :: "ProjectMember list \<Rightarrow> string \<Rightarrow> ProjectMember \<Rightarrow> bool" where
  "update_policy members uid row =
     (has_project_access members (member_project row) uid Owner \<and> role row \<noteq> Owner)"

text \<open>"Owners can remove members" and "Members can leave projects", both \<open>FOR DELETE\<close>
  and permissive: a row may be deleted when either holds.\<close>

definition remove_policy :: "ProjectMember list \<Rightarrow> string \<Rightarrow> ProjectMember \<Rightarrow> bool" where
  "remove_policy members uid row =
     (has_project_access members (member_project row) uid Owner \<and> user_id row \<noteq> uid)"

definition leave_policy :: "ProjectMember list \<Rightarrow> string \<Rightarrow> ProjectMember \<Rightarrow> bool" where
  "leave_policy members uid row = (user_id row = uid \<and> role row \<noteq> Owner)"

definition delete_policy :: "ProjectMember list \<Rightarrow> string \<Rightarrow> ProjectMember \<Rightarrow> bool" where
  "delete_policy members uid row = (remove_policy members uid row \<or> leave_policy members uid row)"

text \<open>
  The statements the project store sends, run on the table under these policies.

  \<open>addMember\<close>: \<open>insert({ project_id, user_id, role, invited_by })\<close>. The statement fails,
  and the table stays as it is, when the policy rejects the row or the user is a member
  of the project already (error 23505).
\<close>

definition addMember :: "ProjectMember list \<Rightarrow> string \<Rightarrow> ProjectMember \<Rightarrow> ProjectMember list" where
  "addMember members uid row =
     (if insert_policy members uid row
         \<and> (\<forall>m \<in> set members. \<not> (member_project m = member_project row \<and> user_id m = user_id row))
         \<and> (\<forall>m \<in> set members. member_id m \<noteq> member_id row)
      then members @ [row] else members)"

text \<open>\<open>updateMemberRole\<close>: \<open>update({ role }).eq("id", memberId)\<close>. Rows the policy does not
  admit are skipped; an updated row the policy rejects fails the statement.\<close>

definition updateMemberRole ::
  "ProjectMember list \<Rightarrow> string \<Rightarrow> string \<Rightarrow> MemberRole \<Rightarrow> ProjectMember list" where
  "updateMemberRole members uid memberId r =
     (let hit = (\<lambda>m. member_id m = memberId \<and> update_policy members uid m) in
      if \<forall>m \<in> set (filter hit members). update_policy members uid (m\<lparr>role := r\<rparr>)
      then map (\<lambda>m. if hit m then m\<lparr>role := r\<rparr> else m) members
      else members)"

text \<open>\<open>removeMember\<close>: \<open>delete().eq("id", memberId)\<close>.\<close>

definition removeMember :: "ProjectMember list \<Rightarrow> string \<Rightarrow> string \<Rightarrow> ProjectMember list" where
  "removeMember members uid memberId =
     filter (\<lambda>m. \<not> (member_id m = memberId \<and> delete_policy members uid m)) members"

text \<open>\<open>leaveProject\<close>: \<open>delete().eq("project_id", projectId).eq("user_id", user.id)\<close>.\<close>

definition leaveProject :: "ProjectMember list \<Rightarrow> string \<Rightarrow> string \<Rightarrow> ProjectMember list" where
  "leaveProject members uid projectId =
     filter (\<lambda>m. \<not> (member_project m = projectId \<and> user_id m = uid \<and> delete_policy members uid m))
            members"

text \<open>A membership operation, with the user who sends it.\<close>

datatype MemberOp =
    AddMember string ProjectMember
  | UpdateMemberRole string string MemberRole
  | RemoveMember string string
  | LeaveProject string string

fun member_step :: "MemberOp \<Rightarrow> ProjectMember list \<Rightarrow> ProjectMember list" where
  "member_step (AddMember uid row) members = addMember members uid row"
| "member_step (UpdateMemberRole uid memberId r) members = updateMemberRole members uid memberId r"
| "member_step (RemoveMember uid memberId) members = removeMember members uid memberId"
| "member_step (LeaveProject uid projectId) members = leaveProject members uid projectId"

definition run_member_ops :: "MemberOp list \<Rightarrow> ProjectMember list \<Rightarrow> ProjectMember list" where
  "run_member_ops ops members = fold member_step ops members"

text \<open>The project has a member with role owner.\<close>

definition has_owner :: "ProjectMember list \<Rightarrow> string \<Rightarrow> bool" where
  "has_owner members p = (\<exists>m \<in> set members. member_project m = p \<and> role m = Owner)"

text \<open>The trigger \<open>on_project_created\<close> runs \<open>handle_new_project\<close>: the creator of a project
  becomes a member with role owner; \<open>new_id\<close> is the generated key of the row.\<close>

definition handle_new_project ::
  "ProjectMember list \<Rightarrow> string \<Rightarrow> string \<Rightarrow> string \<Rightarrow> ProjectMember list" where
  "handle_new_project members new_id projectId creator =
     members @ [\<lparr>member_id = new_id, member_project = projectId, user_id = creator,
                 role = Owner, invited_by = Some creator\<rparr>]"

text \<open>The owner and an editor of project \<open>p1\<close>.\<close>

definition ex_owner :: ProjectMember where
  "ex_owner = \<lparr>member_id = ''m1'', member_project = ''p1'', user_id = ''u1'', role = Owner,
     invited_by = Some ''u1''\<rparr>"

definition ex_editor :: ProjectMember where
  "ex_editor = \<lparr>member_id = ''m2'', member_project = ''p1'', user_id = ''u2'', role = Editor,
     invited_by = Some ''u1''\<rparr>"

section \<open>The publish function (supabase/functions/publish)\<close>

subsection \<open>Slugs\<close>



text \<open>The character class \<open>[a-z0-9]\<close>.\<close>

definition is_alnum :: "char \<Rightarrow> bool" where
  "is_alnum c =
     (let n = (of_char c :: nat) in (97 \<le> n \<and> n \<le> 122) \<or> (48 \<le> n \<and> n \<le> 57))"











subsection \<open>Markdown to HTML\<close>

text \<open>\<open>.replace(/c/g, r)\<close> for a single character \<open>c\<close>.\<close>

definition replace_char :: "char \<Rightarrow> string \<Rightarrow> string \<Rightarrow> string" where
  "replace_char c r s = concat (map (\<lambda>x. if x = c then r else [x]) s)"





subsection \<open>The request handler\<close>











section \<open>Concrete documents and states\<close>

text \<open>A document of project \<open>p1\<close> with the given id, parent and position.\<close>

definition ex_doc :: "string \<Rightarrow> string option \<Rightarrow> int \<Rightarrow> Document" where
  "ex_doc i p n =
     \<lparr>doc_id = i, project_id = ''p1'', parent_id = p, title = i, content = [],
      is_folder = False, is_published = False, sort_order = n, created_by = ''u1'',
      created_at = ''t0'', updated_at = ''t0''\<rparr>"

definition ex_state :: "Document list \<Rightarrow> DocumentTreeNode list \<Rightarrow> DocumentState" where
  "ex_state ds tree =
     \<lparr>documents = ds, documentTree = tree, currentDocument = None,
      loading = False, saving = False, error = None\<rparr>"



text \<open>A root of project \<open>p1\<close> with two children, at positions 4 and 2.\<close>

definition ex_siblings :: "Document list" where
  "ex_siblings = [ex_doc ''r'' None 0, ex_doc ''x'' (Some ''r'') 4, ex_doc ''y'' (Some ''r'') 2]"

section \<open>Evaluation rules\<close>

lemmas ex_defs = ex_doc_def ex_state_def

lemmas build_defs = buildDocumentTree_def linkNodes_def createNodes_def attach_def node_order_def


section \<open>The owner of a project\<close>

lemma access_owner_row:
  assumes "has_project_access members p u Owner"
  obtains m where "m \<in> set members" "member_project m = p" "user_id m = u" "role m = Owner"
proof -
  from assms obtain m where f: "find (\<lambda>m. member_project m = p \<and> user_id m = u) members = Some m"
    and r: "role m = Owner"
    by (auto simp: has_project_access_def split: option.splits)
  from f have "m \<in> set members" "member_project m = p \<and> user_id m = u"
    by (auto simp: find_Some_iff)
  with r that show thesis by blast
qed

lemma owner_row_not_deletable_by_self:
  "role m = Owner \<Longrightarrow> user_id m = uid \<Longrightarrow> \<not> delete_policy members uid m"
  by (simp add: delete_policy_def remove_policy_def leave_policy_def)

lemma update_keeps_owner_rows:
  assumes "m \<in> set members" "role m = Owner"
  shows "m \<in> set (updateMemberRole members uid memberId r)"
proof -
  have "\<not> update_policy members uid m"
    using assms by (simp add: update_policy_def)
  then show ?thesis
    using assms by (auto simp: updateMemberRole_def Let_def image_iff intro!: bexI [of _ m])
qed

text \<open>Whoever deletes an owner's row is an owner of the project, and cannot delete
  their own row.\<close>

lemma delete_keeps_an_owner:
  assumes "m \<in> set members" "role m = Owner" "member_project m = p"
  shows "\<exists>m' \<in> set (filter (\<lambda>x. \<not> (sel x \<and> delete_policy members uid x)) members).
           role m' = Owner \<and> member_project m' = p"
proof (cases "delete_policy members uid m")
  case False
  with assms show ?thesis by auto
next
  case True
  with assms have "has_project_access members p uid Owner"
    by (auto simp: delete_policy_def remove_policy_def leave_policy_def)
  then obtain o' where o: "o' \<in> set members" "member_project o' = p" "user_id o' = uid" "role o' = Owner"
    by (rule access_owner_row)
  then have "\<not> delete_policy members uid o'"
    by (simp add: owner_row_not_deletable_by_self)
  with o show ?thesis by auto
qed

lemma member_step_keeps_an_owner:
  assumes "has_owner members p"
  shows "has_owner (member_step op members) p"
proof -
  from assms obtain m where m: "m \<in> set members" "role m = Owner" "member_project m = p"
    by (auto simp: has_owner_def)
  show ?thesis
  proof (cases op)
    case (AddMember uid row)
    have "m \<in> set (addMember members uid row)"
      using m by (simp add: addMember_def)
    with m AddMember show ?thesis by (auto simp: has_owner_def)
  next
    case (UpdateMemberRole uid memberId r)
    have "m \<in> set (updateMemberRole members uid memberId r)"
      using m by (simp add: update_keeps_owner_rows)
    with m UpdateMemberRole show ?thesis by (auto simp: has_owner_def)
  next
    case (RemoveMember uid memberId)
    with delete_keeps_an_owner [OF m, of "\<lambda>x. member_id x = memberId" uid] show ?thesis
      by (auto simp: removeMember_def has_owner_def)
  next
    case (LeaveProject uid projectId)
    with delete_keeps_an_owner [OF m, of "\<lambda>x. member_project x = projectId \<and> user_id x = uid" uid]
    show ?thesis
      by (auto simp: leaveProject_def has_owner_def)
  qed
qed

lemma run_keeps_an_owner:
  "has_owner members p \<Longrightarrow> has_owner (run_member_ops ops members) p"
  unfolding run_member_ops_def
  by (induction ops arbitrary: members) (auto simp: member_step_keeps_an_owner)

text \<open>
  Claim C9. Under the row level security of \<open>project_members\<close>: a role update by anyone
  leaves every row with role owner as it is; an owner can neither leave the project nor
  remove their own row; a project that has an owner still has one after any sequence
  of add, role update, remove and leave statements; and a project has an owner from
  the moment the trigger has inserted its creator.
\<close>

theorem last_owner_stays:
  assumes "m \<in> set members" and "role m = Owner"
  shows "m \<in> set (updateMemberRole members uid memberId r)
       \<and> m \<in> set (leaveProject members (user_id m) projectId)
       \<and> m \<in> set (removeMember members (user_id m) memberId)
       \<and> has_owner (run_member_ops ops members) (member_project m)
       \<and> has_owner (run_member_ops ops (handle_new_project members new_id p creator)) p"
proof -
  have u: "m \<in> set (updateMemberRole members uid memberId r)"
    using assms by (rule update_keeps_owner_rows)
  have d: "\<not> delete_policy members (user_id m) m"
    using assms by (simp add: owner_row_not_deletable_by_self)
  have l: "m \<in> set (leaveProject members (user_id m) projectId)"
    using assms d by (simp add: leaveProject_def)
  have rm: "m \<in> set (removeMember members (user_id m) memberId)"
    using assms d by (simp add: removeMember_def)
  have "has_owner members (member_project m)"
    using assms by (auto simp: has_owner_def)
  then have h: "has_owner (run_member_ops ops members) (member_project m)"
    by (rule run_keeps_an_owner)
  have "has_owner (handle_new_project members new_id p creator) p"
    by (simp add: has_owner_def handle_new_project_def)
  then have n: "has_owner (run_member_ops ops (handle_new_project members new_id p creator)) p"
    by (rule run_keeps_an_owner)
  from u l rm h n show ?thesis by blast
qed

theorem last_owner_stays_witness:
  "ex_owner \<in> set [ex_owner, ex_editor] \<and> role ex_owner = Owner
   \<and> ex_owner \<in> set (updateMemberRole [ex_owner, ex_editor] ''u1'' ''m1'' Viewer)
   \<and> ex_owner \<in> set (leaveProject [ex_owner, ex_editor] ''u1'' ''p1'')
   \<and> ex_owner \<in> set (removeMember [ex_owner, ex_editor] ''u1'' ''m1'')
   \<and> has_owner (run_member_ops
        [UpdateMemberRole ''u2'' ''m1'' Editor, RemoveMember ''u2'' ''m1'',
         LeaveProject ''u1'' ''p1'', RemoveMember ''u1'' ''m2'']
        [ex_owner, ex_editor]) ''p1''"
proof -
  have h: "ex_owner \<in> set [ex_owner, ex_editor]" "role ex_owner = Owner"
    by (simp_all add: ex_owner_def)
  have p: "member_project ex_owner = ''p1''" "user_id ex_owner = ''u1''"
    by (simp_all add: ex_owner_def)
  show ?thesis
    using h last_owner_stays [OF h, of "''u1''" "''m1''" Viewer "''p1''"
        "[UpdateMemberRole ''u2'' ''m1'' Editor, RemoveMember ''u2'' ''m1'',
          LeaveProject ''u1'' ''p1'', RemoveMember ''u1'' ''m2'']"]
    by (simp add: p)
qed

section \<open>Slugs\<close>

lemma is_alnum_dash [simp]: "\<not> is_alnum (CHR ''-'')"
  by (simp add: is_alnum_def)












section \<open>Escaping\<close>

lemma replace_char_Nil [simp]: "replace_char c r [] = []"
  by (simp add: replace_char_def)

lemma replace_char_Cons [simp]:
  "replace_char c r (x # s) = (if x = c then r else [x]) @ replace_char c r s"
  by (simp add: replace_char_def)

lemma replace_char_append [simp]:
  "replace_char c r (s @ t) = replace_char c r s @ replace_char c r t"
  by (simp add: replace_char_def)






section \<open>The outcome of a publish run\<close>




section \<open>Walking the ancestors\<close>









section \<open>The node map of \<open>buildDocumentTree\<close>\<close>











































section \<open>The forest of \<open>buildDocumentTree\<close>\<close>




section \<open>Subtrees of the parent relation\<close>







section \<open>Moving a document in the parent relation\<close>




section \<open>The store actions\<close>

text \<open>
  Claim C10. When \<open>togglePublished\<close> is called with an id that no document of the store
  has, it returns \<open>false\<close> and the state is the one it started from: documents, derived
  tree and error are untouched, and no request is sent.
\<close>

theorem togglePublished_unknown_id:
  assumes "documentId \<notin> doc_id ` set (documents s)"
  shows "togglePublished s documentId resp = (False, s)"
proof -
  have "find (\<lambda>d. doc_id d = documentId) (documents s) = None"
    using assms by (auto simp: find_None_iff)
  then show ?thesis by (simp add: togglePublished_def)
qed

theorem togglePublished_unknown_id_witness:
  "''zz'' \<notin> doc_id ` set (documents (ex_state [ex_doc ''a'' None 0] [Node (ex_doc ''a'' None 0) []]))
   \<and> togglePublished (ex_state [ex_doc ''a'' None 0] [Node (ex_doc ''a'' None 0) []]) ''zz'' None
       = (False, ex_state [ex_doc ''a'' None 0] [Node (ex_doc ''a'' None 0) []])"
  using togglePublished_unknown_id
    [of "''zz''" "ex_state [ex_doc ''a'' None 0] [Node (ex_doc ''a'' None 0) []]" None]
  by (simp add: ex_defs)










section \<open>The position of a new document\<close>

lemma take1_rev_sort:
  fixes xs :: "int list"
  shows "take 1 (rev (sort xs)) = (if xs = [] then [] else [Max (set xs)])"
proof (cases "xs = []")
  case True
  then show ?thesis by simp
next
  case False
  then have "sort xs \<noteq> []" by (metis length_0_conv length_sort)
  then obtain ys l where yl: "sort xs = ys @ [l]" by (cases "sort xs" rule: rev_cases) auto
  have "sorted (ys @ [l])" using sorted_sort [of xs] by (simp only: yl)
  then have le: "\<forall>y \<in> set ys. y \<le> l" by (simp add: sorted_append)
  have "set xs = set (ys @ [l])" using set_sort [of "\<lambda>x. x" xs] by (simp only: yl)
  then have s: "set xs = insert l (set ys)" by simp
  have "Max (set xs) = l"
    unfolding s using le by (intro Max_eqI) auto
  moreover have "take 1 (rev (sort xs)) = [l]" by (simp add: yl)
  ultimately show ?thesis using False by simp
qed

text \<open>Under a parent that is not null the new document is placed after its siblings.\<close>

lemma createDocument_child_order:
  assumes "p \<noteq> []"
    and "createDocument s table (Some u) docData new_id now None = (Some document, s', table')"
    and "ins_parent_id docData = Some p"
  shows "sort_order document = spec_order (sibling_orders table (ins_project_id docData) (Some p))"
proof -
  let ?os = "sibling_orders table (ins_project_id docData) (Some p)"
  have "select_max_sibling table (ins_project_id docData) (parent_or_null (ins_parent_id docData))
          = Some (take 1 (rev (sort ?os)))"
    using assms(1,3) by (simp add: select_max_sibling_def parent_or_null_def sibling_orders_def)
  then have "max_order (select_max_sibling table (ins_project_id docData)
                          (parent_or_null (ins_parent_id docData))) + 1 = spec_order ?os"
    by (simp add: max_order_def take1_rev_sort [simplified] spec_order_def)
  with assms(2) show ?thesis
    by (auto simp: createDocument_def Let_def inserted_row_def split: option.splits)
qed

text \<open>
  Claim C6, at a root: project \<open>p1\<close> has one root document, at position 0, and a second
  root document is created. The claim places it at position 1, the greatest position
  among its siblings plus one. The sibling query filters with \<open>.eq("parent_id", null)\<close>,
  which selects nothing, and the new document is placed at position 0 as well. Under the
  root, whose children are at positions 4 and 2, a new document is placed at 5.
\<close>

theorem createDocument_root_order:
  "map_option sort_order
     (fst (createDocument (ex_state [ex_doc ''r'' None 0] []) [ex_doc ''r'' None 0] (Some ''u1'')
             (ex_insert None) ''n1'' ''t1'' None)) = Some 0
   \<and> sibling_orders [ex_doc ''r'' None 0] ''p1'' None = [0]
   \<and> spec_order (sibling_orders [ex_doc ''r'' None 0] ''p1'' None) = 1
   \<and> map_option sort_order
         (fst (createDocument (ex_state ex_siblings []) ex_siblings (Some ''u1'')
                 (ex_insert (Some ''r'')) ''n1'' ''t1'' None))
       = Some (spec_order (sibling_orders ex_siblings ''p1'' (Some ''r'')))
   \<and> spec_order (sibling_orders ex_siblings ''p1'' (Some ''r'')) = 5"
proof -
  have root: "map_option sort_order
     (fst (createDocument (ex_state [ex_doc ''r'' None 0] []) [ex_doc ''r'' None 0] (Some ''u1'')
             (ex_insert None) ''n1'' ''t1'' None)) = Some 0"
    by (simp add: createDocument_def select_max_sibling_def parent_or_null_def max_order_def
        inserted_row_def or_keep_def ex_insert_def build_defs ex_defs Let_def)
  have sib: "sibling_orders [ex_doc ''r'' None 0] ''p1'' None = [0]"
    "spec_order (sibling_orders [ex_doc ''r'' None 0] ''p1'' None) = 1"
    by (simp_all add: sibling_orders_def spec_order_def ex_defs)
  obtain document s' table' where
    c: "createDocument (ex_state ex_siblings []) ex_siblings (Some ''u1'')
          (ex_insert (Some ''r'')) ''n1'' ''t1'' None = (Some document, s', table')"
    by (simp add: createDocument_def select_max_sibling_def parent_or_null_def max_order_def
        inserted_row_def or_keep_def ex_insert_def ex_siblings_def build_defs ex_defs Let_def)
  have "sort_order document
          = spec_order (sibling_orders ex_siblings (ins_project_id (ex_insert (Some ''r''))) (Some ''r''))"
    by (rule createDocument_child_order [OF _ c]) (simp_all add: ex_insert_def)
  moreover have "ins_project_id (ex_insert (Some ''r'')) = ''p1''"
    by (simp add: ex_insert_def)
  ultimately have child: "map_option sort_order
         (fst (createDocument (ex_state ex_siblings []) ex_siblings (Some ''u1'')
                 (ex_insert (Some ''r'')) ''n1'' ''t1'' None))
       = Some (spec_order (sibling_orders ex_siblings ''p1'' (Some ''r'')))"
    by (simp add: c)
  have five: "spec_order (sibling_orders ex_siblings ''p1'' (Some ''r'')) = 5"
    by (simp add: sibling_orders_def spec_order_def ex_siblings_def ex_defs)
  from root sib child five show ?thesis by (simp only: simp_thms)
qed

end
